theory Spec2Isabelle
  imports Main
begin

section \<open>Exceptions\<close>

text \<open>
  Every exception the modelled code can raise is a constructor; a function that may raise
  returns \<open>error + 'a\<close> with \<open>Inl\<close> the exception.  \<open>ValidationError key msg\<close> is
  \<^verbatim>\<open>serializers.ValidationError({key: msg})\<close>, the only exception of the repository that
  the REST framework reports as a 400 response; \<open>IntegrityError\<close> is what the store raises
  when an insert violates a uniqueness constraint (\<^verbatim>\<open>unique=True\<close>, \<^verbatim>\<open>unique_together\<close>).
\<close>

datatype error =
    ValidationError string string
  | ValueError string
  | KeyError string
  | UnboundLocalError string
  | User_DoesNotExist
  | ProjectLead_DoesNotExist
  | MultipleObjectsReturned
  | IntegrityError

text \<open>
  How an exception that leaves a view reaches the caller: the framework's exception handler
  turns a \<^verbatim>\<open>ValidationError\<close> into a 400 response; any other exception is not handled and
  becomes a 500 response.
\<close>

fun http_status_of_error :: "error \<Rightarrow> nat" where
  "http_status_of_error (ValidationError k m) = 400"
| "http_status_of_error e = 500"

section \<open>Data model (accounts/models.py, projects/models.py)\<close>

text \<open>
  One record per model class, a foreign key being the primary key (\<open>id\<close>) of the row it
  points to.  Field names carry a prefix because several models share names
  (\<^verbatim>\<open>message\<close>, \<^verbatim>\<open>project\<close>, \<^verbatim>\<open>member\<close>, \<^verbatim>\<open>frontend\<close>).  The timestamp columns
  (\<^verbatim>\<open>date_joined\<close>, \<^verbatim>\<open>created_at\<close>, \<^verbatim>\<open>joined_on\<close>, \<^verbatim>\<open>rejected_on\<close>) read the clock and
  no operation looks at them; they are left out.
\<close>

record Users =
  u_id :: nat
  u_email :: string
  u_password :: string
  u_firstname :: string
  u_lastname :: string
  u_frontend :: bool
  u_backend :: bool
  u_is_active :: bool
  u_is_staff :: bool
  u_is_superuser :: bool

record ProjectLead =
  p_id :: nat
  p_owner :: nat
  p_projectname :: string
  p_description :: string
  p_frontend :: bool
  p_backend :: bool

record ProjectRequest =
  r_id :: nat
  r_project :: nat
  r_member :: nat
  r_message :: string

record ProjectMembers =
  m_id :: nat
  m_project :: nat
  m_member :: nat
  m_message :: string

record ProjectRequestRejected =
  x_id :: nat
  x_project :: nat
  x_user :: nat
  x_message :: string

text \<open>The store: one table (a list of rows in insertion order) per model.\<close>

record database =
  users_tbl :: "Users list"
  projectlead_tbl :: "ProjectLead list"
  projectrequest_tbl :: "ProjectRequest list"
  projectmembers_tbl :: "ProjectMembers list"
  projectrequestrejected_tbl :: "ProjectRequestRejected list"

section \<open>The object-relational mapper's operations\<close>

text \<open>
  \<^verbatim>\<open>Model.objects.get(...)\<close> on the rows that match: no row raises \<^verbatim>\<open>Model.DoesNotExist\<close>
  (passed as \<open>dne\<close>), one row is returned, more raise \<^verbatim>\<open>MultipleObjectsReturned\<close>.
\<close>

fun objects_get :: "error \<Rightarrow> 'a list \<Rightarrow> error + 'a" where
  "objects_get dne [] = Inl dne"
| "objects_get dne [x] = Inr x"
| "objects_get dne (x # y # zs) = Inl MultipleObjectsReturned"

text \<open>\<^verbatim>\<open>queryset.exclude(cond)\<close> keeps the rows that do not meet the condition.\<close>

definition exclude :: "('a \<Rightarrow> bool) \<Rightarrow> 'a list \<Rightarrow> 'a list" where
  "exclude P rows = filter (\<lambda>x. \<not> P x) rows"

text \<open>\<^verbatim>\<open>User.objects.get(email=email)\<close>\<close>

definition User_objects_get :: "database \<Rightarrow> string \<Rightarrow> error + Users" where
  "User_objects_get db email =
     objects_get User_DoesNotExist (filter (\<lambda>u. u_email u = email) (users_tbl db))"

text \<open>
  \<^verbatim>\<open>ProjectLead.objects.get(owner=user, projectname=projectname)\<close>, also written
  \<^verbatim>\<open>ProjectLead.objects.filter(owner=owner).get(projectname=projectname)\<close>.
\<close>

definition ProjectLead_objects_get :: "database \<Rightarrow> Users \<Rightarrow> string \<Rightarrow> error + ProjectLead" where
  "ProjectLead_objects_get db owner projectname =
     objects_get ProjectLead_DoesNotExist
       (filter (\<lambda>p. p_projectname p = projectname)
          (filter (\<lambda>p. p_owner p = u_id owner) (projectlead_tbl db)))"

text \<open>The primary key of a new row: one more than the largest key of the table.\<close>

definition fresh_id :: "nat list \<Rightarrow> nat" where
  "fresh_id ids = Suc (fold max ids 0)"

text \<open>
  Python's truth test on a query parameter (\<^verbatim>\<open>if email:\<close>): \<^verbatim>\<open>query_params.get\<close> gives
  \<^verbatim>\<open>None\<close> for an absent parameter, and both \<^verbatim>\<open>None\<close> and the empty string are false.
\<close>

fun truthy :: "string option \<Rightarrow> bool" where
  "truthy None = False"
| "truthy (Some s) = (s \<noteq> [])"

section \<open>Listing views (projects/views.py)\<close>

subsection \<open>ProjectLeadView.get_queryset\<close>

definition ProjectLeadView_get_queryset ::
  "database \<Rightarrow> string option \<Rightarrow> error + ProjectLead list" where
  "ProjectLeadView_get_queryset db email =
     (let queryset = projectlead_tbl db in
      case email of
        None \<Rightarrow> Inr queryset
      | Some e \<Rightarrow>
          if e = [] then Inr queryset
          else (case User_objects_get db e of
                  Inr user \<Rightarrow> Inr (filter (\<lambda>p. p_owner p = u_id user) queryset)
                | Inl exn \<Rightarrow> if exn = User_DoesNotExist then Inr queryset else Inl exn))"

subsection \<open>ProjectsDisplayView.get_queryset\<close>

text \<open>
  The \<^verbatim>\<open>try\<close> block of lines 123-127: on success the local variable \<^verbatim>\<open>user\<close> is bound
  and the owner's projects are excluded; on \<^verbatim>\<open>User.DoesNotExist\<close> the handler is
  \<^verbatim>\<open>pass\<close>, so \<^verbatim>\<open>user\<close> stays unbound (\<open>None\<close>) and the queryset is untouched.
\<close>

definition display_lookup ::
  "database \<Rightarrow> string \<Rightarrow> ProjectLead list \<Rightarrow> error + (Users option \<times> ProjectLead list)" where
  "display_lookup db e queryset =
     (case User_objects_get db e of
        Inr user \<Rightarrow> Inr (Some user, exclude (\<lambda>p. p_owner p = u_id user) queryset)
      | Inl exn \<Rightarrow> if exn = User_DoesNotExist then Inr (None, queryset) else Inl exn)"

text \<open>The \<^verbatim>\<open>if / elif / elif\<close> chain of lines 129-134 on the two filter parameters.\<close>

definition skill_filter ::
  "string option \<Rightarrow> string option \<Rightarrow> ProjectLead list \<Rightarrow> ProjectLead list" where
  "skill_filter frontend backend queryset =
     (if frontend = Some ''true'' \<and> backend = Some ''true'' then queryset
      else if frontend = Some ''true'' then filter (\<lambda>p. p_frontend p = True) queryset
      else if backend = Some ''true'' then filter (\<lambda>p. p_backend p = True) queryset
      else queryset)"

text \<open>
  Lines 136-146.  \<^verbatim>\<open>filter(member=user)\<close> reads the local \<^verbatim>\<open>user\<close>; reading an unbound
  local raises \<^verbatim>\<open>UnboundLocalError\<close>.  The two lines on the rejected table are comments in
  the source, so that table is not read.
\<close>

definition display_exclusions ::
  "database \<Rightarrow> Users option \<Rightarrow> ProjectLead list \<Rightarrow> error + ProjectLead list" where
  "display_exclusions db user queryset =
     (case user of
        None \<Rightarrow> Inl (UnboundLocalError ''user'')
      | Some u \<Rightarrow>
          (let projectsrequest =
                 map r_project (filter (\<lambda>r. r_member r = u_id u) (projectrequest_tbl db));
               projectsjoined =
                 map m_project (filter (\<lambda>m. m_member m = u_id u) (projectmembers_tbl db));
               queryset1 = exclude (\<lambda>p. p_id p \<in> set projectsrequest) queryset;
               queryset2 = exclude (\<lambda>p. p_id p \<in> set projectsjoined) queryset1
           in Inr queryset2))"

definition ProjectsDisplayView_get_queryset ::
  "database \<Rightarrow> string option \<Rightarrow> string option \<Rightarrow> string option \<Rightarrow> error + ProjectLead list" where
  "ProjectsDisplayView_get_queryset db email frontend backend =
     (let queryset = projectlead_tbl db in
      case email of
        None \<Rightarrow> Inr []
      | Some e \<Rightarrow>
          if e = [] then Inr []
          else (case display_lookup db e queryset of
                  Inl exn \<Rightarrow> Inl exn
                | Inr (user, queryset1) \<Rightarrow>
                    display_exclusions db user (skill_filter frontend backend queryset1)))"

subsection \<open>ProjectRequestDisplayView.get_queryset\<close>

text \<open>
  The handler names \<^verbatim>\<open>User.DoesNotExist\<close> and \<^verbatim>\<open>ProjectLead.DoesNotExist\<close> only; any
  other exception of the two lookups leaves the view.
\<close>

definition ProjectRequestDisplayView_get_queryset ::
  "database \<Rightarrow> string option \<Rightarrow> string option \<Rightarrow> error + ProjectRequest list" where
  "ProjectRequestDisplayView_get_queryset db email projectname =
     (let queryset = projectrequest_tbl db in
      if truthy email \<and> truthy projectname then
        (case email of None \<Rightarrow> Inr queryset | Some e \<Rightarrow>
         case projectname of None \<Rightarrow> Inr queryset | Some n \<Rightarrow>
           (case User_objects_get db e of
              Inl exn \<Rightarrow> if exn = User_DoesNotExist then Inr queryset else Inl exn
            | Inr user \<Rightarrow>
                (case ProjectLead_objects_get db user n of
                   Inl exn \<Rightarrow> if exn = ProjectLead_DoesNotExist then Inr queryset else Inl exn
                 | Inr project \<Rightarrow> Inr (filter (\<lambda>r. r_project r = p_id project) queryset))))
      else Inr queryset)"

subsection \<open>JoinedProjectDisplayView.get_queryset\<close>

text \<open>The handler is a bare \<^verbatim>\<open>except:\<close>, so every exception of the lookup is swallowed.\<close>

definition JoinedProjectDisplayView_get_queryset ::
  "database \<Rightarrow> string option \<Rightarrow> error + ProjectMembers list" where
  "JoinedProjectDisplayView_get_queryset db email =
     (let queryset = projectmembers_tbl db in
      case email of
        None \<Rightarrow> Inr queryset
      | Some e \<Rightarrow>
          if e = [] then Inr queryset
          else (case User_objects_get db e of
                  Inr user \<Rightarrow> Inr (filter (\<lambda>m. m_member m = u_id user) queryset)
                | Inl exn \<Rightarrow> Inr queryset))"

subsection \<open>ProjectMembersDisplayView.get_queryset\<close>

definition ProjectMembersDisplayView_get_queryset ::
  "database \<Rightarrow> string option \<Rightarrow> string option \<Rightarrow> error + ProjectMembers list" where
  "ProjectMembersDisplayView_get_queryset db email projectname =
     (let queryset = projectmembers_tbl db in
      if truthy email \<and> truthy projectname then
        (case email of None \<Rightarrow> Inr queryset | Some e \<Rightarrow>
         case projectname of None \<Rightarrow> Inr queryset | Some n \<Rightarrow>
           (case User_objects_get db e of
              Inl exn \<Rightarrow> Inr queryset
            | Inr user \<Rightarrow>
                (case ProjectLead_objects_get db user n of
                   Inl exn \<Rightarrow> Inr queryset
                 | Inr project \<Rightarrow>
                     Inr (filter (\<lambda>m. m_project m = p_id project) (projectmembers_tbl db)))))
      else Inr queryset)"

subsection \<open>PendingProjectsView.get_queryset\<close>

definition PendingProjectsView_get_queryset ::
  "database \<Rightarrow> string option \<Rightarrow> error + ProjectRequest list" where
  "PendingProjectsView_get_queryset db email =
     (let queryset = projectrequest_tbl db in
      case email of
        None \<Rightarrow> Inr queryset
      | Some e \<Rightarrow>
          if e = [] then Inr queryset
          else (case User_objects_get db e of
                  Inr user \<Rightarrow> Inr (filter (\<lambda>r. r_member r = u_id user) (projectrequest_tbl db))
                | Inl exn \<Rightarrow> Inr queryset))"

subsection \<open>ProjectCountView.list\<close>

datatype response_data =
    Error_data string
  | Count_data nat nat nat

record Response =
  resp_data :: response_data
  resp_status :: nat

text \<open>
  \<open>Count_data c j p\<close> is the dictionary with keys \<^verbatim>\<open>createdprojects\<close>,
  \<^verbatim>\<open>joinedprojects\<close>, \<^verbatim>\<open>pendingrequests\<close>; \<^verbatim>\<open>Response(data)\<close> has status 200.
\<close>

definition ProjectCountView_list :: "database \<Rightarrow> string option \<Rightarrow> error + Response" where
  "ProjectCountView_list db email =
     (case email of
        None \<Rightarrow>
          Inr \<lparr>resp_data = Error_data ''Email query parameter is required'', resp_status = 400\<rparr>
      | Some e \<Rightarrow>
          if e = [] then
            Inr \<lparr>resp_data = Error_data ''Email query parameter is required'', resp_status = 400\<rparr>
          else (case User_objects_get db e of
                  Inl exn \<Rightarrow>
                    if exn = User_DoesNotExist
                    then Inr \<lparr>resp_data = Error_data ''User not found'', resp_status = 404\<rparr>
                    else Inl exn
                | Inr user \<Rightarrow>
                    (let createdprojects =
                           length (filter (\<lambda>p. p_owner p = u_id user) (projectlead_tbl db));
                         joinedprojects =
                           length (filter (\<lambda>m. m_member m = u_id user) (projectmembers_tbl db));
                         pendingrequests =
                           length (filter (\<lambda>r. r_member r = u_id user) (projectrequest_tbl db))
                     in Inr \<lparr>resp_data = Count_data createdprojects joinedprojects pendingrequests,
                             resp_status = 200\<rparr>)))"

section \<open>Creating rows (the store's uniqueness constraints)\<close>

text \<open>
  \<^verbatim>\<open>Model.objects.create(...)\<close> inserts one row.  The store refuses the insert with
  \<^verbatim>\<open>IntegrityError\<close> when the model's \<^verbatim>\<open>unique_together\<close> pair is already present, and
  the table is then unchanged; otherwise the row gets a fresh primary key and is appended.
  No model of projects/models.py installs the \<^verbatim>\<open>ProjectManager\<close> of projects/manager.py,
  so \<^verbatim>\<open>ProjectLead.objects\<close> is the framework's default manager.
\<close>

definition ProjectLead_objects_create ::
  "database \<Rightarrow> nat \<Rightarrow> string \<Rightarrow> string \<Rightarrow> bool \<Rightarrow> bool \<Rightarrow> database \<times> (error + ProjectLead)" where
  "ProjectLead_objects_create db owner projectname description frontend backend =
     (if list_ex (\<lambda>p. p_owner p = owner \<and> p_projectname p = projectname) (projectlead_tbl db)
      then (db, Inl IntegrityError)
      else (let project = \<lparr>p_id = fresh_id (map p_id (projectlead_tbl db)), p_owner = owner,
                             p_projectname = projectname, p_description = description,
                             p_frontend = frontend, p_backend = backend\<rparr>
            in (db\<lparr>projectlead_tbl := projectlead_tbl db @ [project]\<rparr>, Inr project)))"

definition ProjectRequest_objects_create ::
  "database \<Rightarrow> nat \<Rightarrow> nat \<Rightarrow> string \<Rightarrow> database \<times> (error + ProjectRequest)" where
  "ProjectRequest_objects_create db project member message =
     (if list_ex (\<lambda>r. r_project r = project \<and> r_member r = member) (projectrequest_tbl db)
      then (db, Inl IntegrityError)
      else (let new_request = \<lparr>r_id = fresh_id (map r_id (projectrequest_tbl db)),
                                 r_project = project, r_member = member, r_message = message\<rparr>
            in (db\<lparr>projectrequest_tbl := projectrequest_tbl db @ [new_request]\<rparr>,
                Inr new_request)))"

definition ProjectMembers_objects_create ::
  "database \<Rightarrow> nat \<Rightarrow> nat \<Rightarrow> string \<Rightarrow> database \<times> (error + ProjectMembers)" where
  "ProjectMembers_objects_create db project member message =
     (if list_ex (\<lambda>m. m_project m = project \<and> m_member m = member) (projectmembers_tbl db)
      then (db, Inl IntegrityError)
      else (let new_joinee = \<lparr>m_id = fresh_id (map m_id (projectmembers_tbl db)),
                                m_project = project, m_member = member, m_message = message\<rparr>
            in (db\<lparr>projectmembers_tbl := projectmembers_tbl db @ [new_joinee]\<rparr>,
                Inr new_joinee)))"

definition ProjectRequestRejected_objects_create ::
  "database \<Rightarrow> nat \<Rightarrow> nat \<Rightarrow> string \<Rightarrow> database \<times> (error + ProjectRequestRejected)" where
  "ProjectRequestRejected_objects_create db project user message =
     (if list_ex (\<lambda>x. x_project x = project \<and> x_user x = user) (projectrequestrejected_tbl db)
      then (db, Inl IntegrityError)
      else (let new_reject = \<lparr>x_id = fresh_id (map x_id (projectrequestrejected_tbl db)),
                                x_project = project, x_user = user, x_message = message\<rparr>
            in (db\<lparr>projectrequestrejected_tbl := projectrequestrejected_tbl db @ [new_reject]\<rparr>,
                Inr new_reject)))"

section \<open>Serializers (projects/serializers.py)\<close>

text \<open>
  The argument of each \<^verbatim>\<open>create\<close> is the dictionary \<^verbatim>\<open>validated_data\<close>.  A field the
  serializer requires is always a key of it; a model field with a default (\<^verbatim>\<open>message\<close>,
  \<^verbatim>\<open>frontend\<close>, \<^verbatim>\<open>backend\<close>) is optional in a model serializer and may be absent, so
  these are \<open>option\<close>s: \<^verbatim>\<open>validated_data["k"]\<close> on an absent key raises \<^verbatim>\<open>KeyError\<close>,
  \<^verbatim>\<open>validated_data.get("k", d)\<close> gives \<open>d\<close>.
\<close>

record lead_data =
  ld_email :: string
  ld_projectname :: string
  ld_description :: string
  ld_frontend :: "bool option"
  ld_backend :: "bool option"

record request_data =
  rd_owner_email :: string
  rd_projectname :: string
  rd_member_email :: string
  rd_message :: "string option"

record decision_data =
  dd_email :: string
  dd_owner :: string
  dd_projectname :: string
  dd_message :: "string option"

subsection \<open>ProjectLeadCreateSerializer.create\<close>

definition ProjectLeadCreateSerializer_create ::
  "database \<Rightarrow> lead_data \<Rightarrow> database \<times> (error + ProjectLead)" where
  "ProjectLeadCreateSerializer_create db validated_data =
     (case User_objects_get db (ld_email validated_data) of
        Inl exn \<Rightarrow>
          if exn = User_DoesNotExist
          then (db, Inl (ValidationError ''email'' ''User with this email does not exist''))
          else (db, Inl exn)
      | Inr user \<Rightarrow>
          (case ld_frontend validated_data of
             None \<Rightarrow> (db, Inl (KeyError ''frontend''))
           | Some frontend \<Rightarrow>
               (case ld_backend validated_data of
                  None \<Rightarrow> (db, Inl (KeyError ''backend''))
                | Some backend \<Rightarrow>
                    ProjectLead_objects_create db (u_id user) (ld_projectname validated_data)
                      (ld_description validated_data) frontend backend)))"

subsection \<open>ProjectRequestCreateSerializer.create\<close>

definition ProjectRequestCreateSerializer_create ::
  "database \<Rightarrow> request_data \<Rightarrow> database \<times> (error + ProjectRequest)" where
  "ProjectRequestCreateSerializer_create db validated_data =
     (let owner_email = rd_owner_email validated_data;
          projectname = rd_projectname validated_data;
          member_email = rd_member_email validated_data;
          message = (case rd_message validated_data of
                       None \<Rightarrow> ''I am interested in joining this project''
                     | Some m \<Rightarrow> m)
      in case User_objects_get db owner_email of
           Inl exn \<Rightarrow>
             if exn = User_DoesNotExist
             then (db, Inl (ValidationError ''owner_email'' ''Owner with this email does not exist.''))
             else (db, Inl exn)
         | Inr owner \<Rightarrow>
             (case User_objects_get db member_email of
                Inl exn \<Rightarrow>
                  if exn = User_DoesNotExist
                  then (db, Inl (ValidationError ''member_email''
                                   ''Member with this email does not exist.''))
                  else (db, Inl exn)
              | Inr member \<Rightarrow>
                  (case ProjectLead_objects_get db owner projectname of
                     Inl exn \<Rightarrow>
                       if exn = ProjectLead_DoesNotExist
                       then (db, Inl (ValidationError ''projectname'' ''This project does not exist.''))
                       else (db, Inl exn)
                   | Inr project \<Rightarrow>
                       ProjectRequest_objects_create db (p_id project) (u_id member) message)))"

subsection \<open>ProjectMemberCreateSerializer.create and ProjectRejectedCreateSerializer.create\<close>

text \<open>
  Both run the same three lookups (lines 245-261 and 309-325) and then read
  \<^verbatim>\<open>validated_data["message"]\<close> while building the arguments of the insert.
\<close>

definition decision_lookups ::
  "database \<Rightarrow> decision_data \<Rightarrow> error + (ProjectLead \<times> Users \<times> string)" where
  "decision_lookups db validated_data =
     (case User_objects_get db (dd_owner validated_data) of
        Inl exn \<Rightarrow>
          if exn = User_DoesNotExist
          then Inl (ValidationError ''owner'' ''Owner with this email does not exist'')
          else Inl exn
      | Inr owner \<Rightarrow>
          (case User_objects_get db (dd_email validated_data) of
             Inl exn \<Rightarrow>
               if exn = User_DoesNotExist
               then Inl (ValidationError ''member'' ''Member with this email does not exist'')
               else Inl exn
           | Inr member \<Rightarrow>
               (case ProjectLead_objects_get db owner (dd_projectname validated_data) of
                  Inl exn \<Rightarrow>
                    if exn = ProjectLead_DoesNotExist
                    then Inl (ValidationError ''project'' ''This project does not exist'')
                    else Inl exn
                | Inr project \<Rightarrow>
                    (case dd_message validated_data of
                       None \<Rightarrow> Inl (KeyError ''message'')
                     | Some message \<Rightarrow> Inr (project, member, message)))))"

definition ProjectMemberCreateSerializer_create ::
  "database \<Rightarrow> decision_data \<Rightarrow> database \<times> (error + ProjectMembers)" where
  "ProjectMemberCreateSerializer_create db validated_data =
     (case decision_lookups db validated_data of
        Inl exn \<Rightarrow> (db, Inl exn)
      | Inr (project, member, message) \<Rightarrow>
          ProjectMembers_objects_create db (p_id project) (u_id member) message)"

definition ProjectRejectedCreateSerializer_create ::
  "database \<Rightarrow> decision_data \<Rightarrow> database \<times> (error + ProjectRequestRejected)" where
  "ProjectRejectedCreateSerializer_create db validated_data =
     (case decision_lookups db validated_data of
        Inl exn \<Rightarrow> (db, Inl exn)
      | Inr (project, member, message) \<Rightarrow>
          ProjectRequestRejected_objects_create db (p_id project) (u_id member) message)"

section \<open>Registration (accounts/manager.py, accounts/serializers.py)\<close>

text \<open>
  \<^verbatim>\<open>normalize_email\<close> is inherited from the framework's \<^verbatim>\<open>BaseUserManager\<close>: it strips
  the address, splits it at the last \<^verbatim>\<open>@\<close> and lowers the domain part; an address with
  no \<^verbatim>\<open>@\<close> is returned as it came.  A string is a list of code points below 256 (the type
  \<open>char\<close>, read as Latin-1); a code point from 256 on is outside the type.  On this range
  \<open>isspace\<close> is Python's \<^verbatim>\<open>str.isspace\<close>, the characters that \<^verbatim>\<open>str.strip()\<close> removes
  (tab to carriage return, the four separators 28 to 31, the space, U+0085 and U+00A0), and
  \<open>lower_char\<close> is \<^verbatim>\<open>str.lower\<close>, which maps A-Z and the accented capitals U+00C0 to U+00DE
  (the multiplication sign U+00D7 apart) to the code point 32 higher and leaves every
  other character as it is.
\<close>

definition isspace :: "char \<Rightarrow> bool" where
  "isspace c =
     (let n = (of_char c :: nat)
      in (9 \<le> n \<and> n \<le> 13) \<or> (28 \<le> n \<and> n \<le> 32) \<or> n = 133 \<or> n = 160)"

definition lower_char :: "char \<Rightarrow> char" where
  "lower_char c =
     (let n = (of_char c :: nat)
      in if (65 \<le> n \<and> n \<le> 90) \<or> (192 \<le> n \<and> n \<le> 214) \<or> (216 \<le> n \<and> n \<le> 222)
         then char_of (n + 32) else c)"

definition strip :: "string \<Rightarrow> string" where
  "strip s = rev (dropWhile isspace (rev (dropWhile isspace s)))"

definition rsplit_at :: "string \<Rightarrow> (string \<times> string) option" where
  "rsplit_at s =
     (if CHR ''@'' \<in> set s
      then Some (rev (tl (dropWhile (\<lambda>c. c \<noteq> CHR ''@'') (rev s))),
                 rev (takeWhile (\<lambda>c. c \<noteq> CHR ''@'') (rev s)))
      else None)"

definition normalize_email :: "string \<Rightarrow> string" where
  "normalize_email email =
     (case rsplit_at (strip email) of
        None \<Rightarrow> email
      | Some (email_name, domain_part) \<Rightarrow> email_name @ ''@'' @ map lower_char domain_part)"

text \<open>
  \<^verbatim>\<open>user.save()\<close> for a new user: the column \<^verbatim>\<open>email\<close> is \<^verbatim>\<open>unique=True\<close>, so the store
  refuses a second row with the same stored address.
\<close>

definition Users_save :: "database \<Rightarrow> Users \<Rightarrow> database \<times> (error + Users)" where
  "Users_save db user =
     (if list_ex (\<lambda>u. u_email u = u_email user) (users_tbl db)
      then (db, Inl IntegrityError)
      else (let saved = user\<lparr>u_id := fresh_id (map u_id (users_tbl db))\<rparr>
            in (db\<lparr>users_tbl := users_tbl db @ [saved]\<rparr>, Inr saved)))"

text \<open>
  \<^verbatim>\<open>UserManager.create_user(email, password, **extra_fields)\<close> with the four extra fields
  its caller passes.  The fields not passed take the defaults of the model
  (\<^verbatim>\<open>is_active=True\<close>, \<^verbatim>\<open>is_staff=False\<close>); \<^verbatim>\<open>set_password\<close> stores the hash that the
  framework's hasher, the parameter \<open>make_password\<close>, computes.
\<close>

definition create_user ::
  "(string \<Rightarrow> string) \<Rightarrow> database \<Rightarrow> string \<Rightarrow> string \<Rightarrow> string \<Rightarrow> string \<Rightarrow> bool \<Rightarrow> bool
     \<Rightarrow> database \<times> (error + Users)" where
  "create_user make_password db email password firstname lastname frontend backend =
     (if email = [] then (db, Inl (ValueError ''Users must have an email address''))
      else (let email1 = normalize_email email;
                user = \<lparr>u_id = 0, u_email = email1, u_password = make_password password,
                        u_firstname = firstname, u_lastname = lastname,
                        u_frontend = frontend, u_backend = backend,
                        u_is_active = True, u_is_staff = False, u_is_superuser = False\<rparr>
            in Users_save db user))"

record users_data =
  ud_firstname :: string
  ud_lastname :: string
  ud_email :: string
  ud_password :: string
  ud_frontend :: "bool option"
  ud_backend :: "bool option"

text \<open>
  \<^verbatim>\<open>UsersCreateSerializer.create\<close>: the keyword arguments are read before the call, so an
  absent \<^verbatim>\<open>frontend\<close> or \<^verbatim>\<open>backend\<close> key raises \<^verbatim>\<open>KeyError\<close> first.
\<close>

definition UsersCreateSerializer_create ::
  "(string \<Rightarrow> string) \<Rightarrow> database \<Rightarrow> users_data \<Rightarrow> database \<times> (error + Users)" where
  "UsersCreateSerializer_create make_password db validated_data =
     (case ud_frontend validated_data of
        None \<Rightarrow> (db, Inl (KeyError ''frontend''))
      | Some frontend \<Rightarrow>
          (case ud_backend validated_data of
             None \<Rightarrow> (db, Inl (KeyError ''backend''))
           | Some backend \<Rightarrow>
               create_user make_password db (ud_email validated_data) (ud_password validated_data)
                 (ud_firstname validated_data) (ud_lastname validated_data) frontend backend))"

section \<open>The write endpoints as transitions of the store\<close>

text \<open>
  The five \<^verbatim>\<open>POST\<close> endpoints registered in projecto/urls.py (\<^verbatim>\<open>accounts\<close>,
  \<^verbatim>\<open>projectleads\<close>, \<^verbatim>\<open>projectrequests\<close>, \<^verbatim>\<open>projectmembers\<close>, \<^verbatim>\<open>projectreject\<close>) each
  call the \<^verbatim>\<open>create\<close> of their serializer on the validated data.  An operation that
  raises leaves the store as it was.  \<open>run_operations\<close> is the store after a sequence of
  such calls on the empty store.  The viewsets also route \<^verbatim>\<open>PUT\<close>, \<^verbatim>\<open>PATCH\<close> and
  \<^verbatim>\<open>DELETE\<close>; these are not transitions here, so \<open>run_operations\<close> ranges over the stores
  that creations alone produce, and it is used only for the two \<^verbatim>\<open>unique_together\<close>
  pairs, which the store enforces on every write.
\<close>

datatype operation =
    Register users_data
  | CreateProject lead_data
  | RequestJoin request_data
  | Accept decision_data
  | Reject decision_data

fun apply_operation :: "(string \<Rightarrow> string) \<Rightarrow> database \<Rightarrow> operation \<Rightarrow> database" where
  "apply_operation make_password db (Register d) =
     fst (UsersCreateSerializer_create make_password db d)"
| "apply_operation make_password db (CreateProject d) =
     fst (ProjectLeadCreateSerializer_create db d)"
| "apply_operation make_password db (RequestJoin d) =
     fst (ProjectRequestCreateSerializer_create db d)"
| "apply_operation make_password db (Accept d) =
     fst (ProjectMemberCreateSerializer_create db d)"
| "apply_operation make_password db (Reject d) =
     fst (ProjectRejectedCreateSerializer_create db d)"

definition empty_db :: database where
  "empty_db = \<lparr>users_tbl = [], projectlead_tbl = [], projectrequest_tbl = [],
     projectmembers_tbl = [], projectrequestrejected_tbl = []\<rparr>"

definition run_operations :: "(string \<Rightarrow> string) \<Rightarrow> operation list \<Rightarrow> database" where
  "run_operations make_password ops = foldl (apply_operation make_password) empty_db ops"

section \<open>A scenario store\<close>

text \<open>
  Two registered users; \<open>alice\<close> owns the projects P, Q and R, \<open>bob\<close> owns S.  \<open>bob\<close> has a
  pending request for P, is a member of R and was rejected from Q.
\<close>

definition alice :: Users where
  "alice = \<lparr>u_id = 1, u_email = ''a@x.com'', u_password = ''h1'', u_firstname = ''Alice'',
     u_lastname = ''A'', u_frontend = True, u_backend = False, u_is_active = True,
     u_is_staff = False, u_is_superuser = False\<rparr>"

definition bob :: Users where
  "bob = \<lparr>u_id = 2, u_email = ''b@x.com'', u_password = ''h2'', u_firstname = ''Bob'',
     u_lastname = ''B'', u_frontend = False, u_backend = True, u_is_active = True,
     u_is_staff = False, u_is_superuser = False\<rparr>"

definition project_P :: ProjectLead where
  "project_P = \<lparr>p_id = 1, p_owner = 1, p_projectname = ''P'', p_description = ''first'',
     p_frontend = True, p_backend = False\<rparr>"

definition project_Q :: ProjectLead where
  "project_Q = \<lparr>p_id = 2, p_owner = 1, p_projectname = ''Q'', p_description = ''second'',
     p_frontend = False, p_backend = True\<rparr>"

definition project_R :: ProjectLead where
  "project_R = \<lparr>p_id = 3, p_owner = 1, p_projectname = ''R'', p_description = ''third'',
     p_frontend = True, p_backend = True\<rparr>"

definition project_S :: ProjectLead where
  "project_S = \<lparr>p_id = 4, p_owner = 2, p_projectname = ''S'', p_description = ''fourth'',
     p_frontend = True, p_backend = False\<rparr>"

definition request_1 :: ProjectRequest where
  "request_1 = \<lparr>r_id = 1, r_project = 1, r_member = 2, r_message = ''hi''\<rparr>"

definition member_1 :: ProjectMembers where
  "member_1 = \<lparr>m_id = 1, m_project = 3, m_member = 2, m_message = ''ok''\<rparr>"

definition rejected_1 :: ProjectRequestRejected where
  "rejected_1 = \<lparr>x_id = 1, x_project = 2, x_user = 2, x_message = ''no''\<rparr>"

definition db_example :: database where
  "db_example = \<lparr>users_tbl = [alice, bob],
     projectlead_tbl = [project_P, project_Q, project_R, project_S],
     projectrequest_tbl = [request_1],
     projectmembers_tbl = [member_1],
     projectrequestrejected_tbl = [rejected_1]\<rparr>"

text \<open>
  Inputs of the scenario: a second join request of \<open>bob\<close> for P, a first one for Q and the
  row it inserts, a second project of \<open>alice\<close> named P, and the owner's decisions on
  \<open>bob\<close> for Q and for P.
\<close>

definition duplicate_request :: request_data where
  "duplicate_request = \<lparr>rd_owner_email = ''a@x.com'', rd_projectname = ''P'',
     rd_member_email = ''b@x.com'', rd_message = None\<rparr>"

definition request_for_Q :: request_data where
  "request_for_Q = \<lparr>rd_owner_email = ''a@x.com'', rd_projectname = ''Q'',
     rd_member_email = ''b@x.com'', rd_message = Some ''please''\<rparr>"

definition request_2 :: ProjectRequest where
  "request_2 = \<lparr>r_id = 2, r_project = 2, r_member = 2, r_message = ''please''\<rparr>"

definition duplicate_project :: lead_data where
  "duplicate_project = \<lparr>ld_email = ''a@x.com'', ld_projectname = ''P'',
     ld_description = ''again'', ld_frontend = Some True, ld_backend = Some False\<rparr>"

definition unknown_owner_project :: lead_data where
  "unknown_owner_project = \<lparr>ld_email = ''z@x.com'', ld_projectname = ''T'',
     ld_description = ''new'', ld_frontend = Some True, ld_backend = Some False\<rparr>"

definition decision_Q :: decision_data where
  "decision_Q = \<lparr>dd_email = ''b@x.com'', dd_owner = ''a@x.com'', dd_projectname = ''Q'',
     dd_message = Some ''welcome''\<rparr>"

definition decision_P :: decision_data where
  "decision_P = \<lparr>dd_email = ''b@x.com'', dd_owner = ''a@x.com'', dd_projectname = ''P'',
     dd_message = Some ''sorry''\<rparr>"

text \<open>The rows that accepting \<open>bob\<close> for Q and rejecting him for P insert.\<close>

definition member_2 :: ProjectMembers where
  "member_2 = \<lparr>m_id = 2, m_project = 2, m_member = 2, m_message = ''welcome''\<rparr>"

definition rejected_2 :: ProjectRequestRejected where
  "rejected_2 = \<lparr>x_id = 2, x_project = 1, x_user = 2, x_message = ''sorry''\<rparr>"

text \<open>
  The user that registering \<^verbatim>\<open>" Carol@X.Com "\<close> with the identity as hasher inserts, the
  store after that registration, and two addresses outside ASCII: one whose domain starts
  with the capital E acute (U+00C9), one with a leading U+0085.
\<close>

definition carol :: Users where
  "carol = \<lparr>u_id = 3, u_email = ''Carol@x.com'', u_password = ''pw'', u_firstname = ''Carol'',
     u_lastname = ''C'', u_frontend = True, u_backend = False, u_is_active = True,
     u_is_staff = False, u_is_superuser = False\<rparr>"

definition db_with_carol :: database where
  "db_with_carol = db_example\<lparr>users_tbl := [alice, bob, carol]\<rparr>"

definition carol_lower :: Users where
  "carol_lower = \<lparr>u_id = 4, u_email = ''carol@x.com'', u_password = ''pw'',
     u_firstname = ''Carol'', u_lastname = ''C'', u_frontend = True, u_backend = False,
     u_is_active = True, u_is_staff = False, u_is_superuser = False\<rparr>"




section \<open>Facts about the lookups\<close>

lemma objects_get_Inr_iff: "objects_get dne rows = Inr x \<longleftrightarrow> rows = [x]"
  by (cases "(dne, rows)" rule: objects_get.cases) auto

lemma objects_get_dne_iff:
  "dne \<noteq> MultipleObjectsReturned \<Longrightarrow> objects_get dne rows = Inl dne \<longleftrightarrow> rows = []"
  by (cases "(dne, rows)" rule: objects_get.cases) auto

lemma User_objects_get_Inr_email:
  "User_objects_get db e = Inr u \<Longrightarrow> u_email u = e \<and> u \<in> set (users_tbl db)"
proof -
  assume "User_objects_get db e = Inr u"
  then have "filter (\<lambda>u. u_email u = e) (users_tbl db) = [u]"
    by (simp add: User_objects_get_def objects_get_Inr_iff)
  then have "u \<in> set (filter (\<lambda>u. u_email u = e) (users_tbl db))"
    by simp
  then show ?thesis by simp
qed

lemma User_objects_get_unknown:
  "User_objects_get db e = Inl User_DoesNotExist \<longleftrightarrow> (\<forall>u \<in> set (users_tbl db). u_email u \<noteq> e)"
  by (simp add: User_objects_get_def objects_get_dne_iff filter_empty_conv)

lemma User_objects_get_unknown_map:
  "e \<notin> set (map u_email (users_tbl db)) \<Longrightarrow> User_objects_get db e = Inl User_DoesNotExist"
  by (auto simp: User_objects_get_unknown)

lemma User_objects_get_unknown_image:
  "e \<notin> u_email ` set (users_tbl db) \<Longrightarrow> User_objects_get db e = Inl User_DoesNotExist"
  by (auto simp: User_objects_get_unknown)

lemma ProjectLead_objects_get_none:
  "(u_id user, n) \<notin> (\<lambda>p. (p_owner p, p_projectname p)) ` set (projectlead_tbl db)
   \<Longrightarrow> ProjectLead_objects_get db user n = Inl ProjectLead_DoesNotExist"
  by (force simp: ProjectLead_objects_get_def objects_get_dne_iff filter_empty_conv)

lemmas example_defs = db_example_def alice_def bob_def project_P_def project_Q_def
  project_R_def project_S_def request_1_def member_1_def rejected_1_def

lemmas scenario_defs = example_defs duplicate_request_def request_for_Q_def request_2_def
  duplicate_project_def unknown_owner_project_def decision_Q_def decision_P_def
  member_2_def rejected_2_def carol_def db_with_carol_def carol_lower_def

section \<open>The discovery listing\<close>

lemma display_lookup_known:
  "User_objects_get db e = Inr V \<Longrightarrow>
   display_lookup db e q = Inr (Some V, filter (\<lambda>p. p_owner p \<noteq> u_id V) q)"
  by (simp add: display_lookup_def exclude_def)

lemma display_exclusions_Some:
  "display_exclusions db (Some V) q =
     Inr (filter (\<lambda>p. (\<forall>r \<in> set (projectrequest_tbl db). \<not> (r_member r = u_id V \<and> r_project r = p_id p))
                     \<and> (\<forall>m \<in> set (projectmembers_tbl db). \<not> (m_member m = u_id V \<and> m_project m = p_id p))) q)"
  unfolding display_exclusions_def exclude_def Let_def
  by (auto intro!: filter_cong simp: image_iff)

lemma skill_filter_commute:
  "skill_filter f b (filter P q) = filter P (skill_filter f b q)"
  by (auto simp: skill_filter_def intro: filter_cong)

lemma discovery_known:
  assumes "e \<noteq> []" and "User_objects_get db e = Inr V"
  shows "ProjectsDisplayView_get_queryset db (Some e) frontend backend =
           Inr (filter (\<lambda>p. p_owner p \<noteq> u_id V
                  \<and> (\<forall>r \<in> set (projectrequest_tbl db). \<not> (r_member r = u_id V \<and> r_project r = p_id p))
                  \<and> (\<forall>m \<in> set (projectmembers_tbl db). \<not> (m_member m = u_id V \<and> m_project m = p_id p)))
                (skill_filter frontend backend (projectlead_tbl db)))"
  using assms
  by (simp add: ProjectsDisplayView_get_queryset_def display_lookup_known
        display_exclusions_Some skill_filter_commute conj_commute conj_left_commute cong: filter_cong)

text \<open>
  Claim C1.  For a viewer \<open>V\<close> whose (non-empty) email is that of a registered user, the
  discovery listing called with the email alone returns exactly the projects that \<open>V\<close> does
  not own, without those \<open>V\<close> has a pending request for and without those \<open>V\<close> is a member
  of; with filter parameters the same selection is made among the projects the skill filter
  keeps.  The table of rejected requests plays no part: replacing it by any other table
  leaves the listing as it is, so a project \<open>V\<close> was rejected from is not excluded.
\<close>

theorem discovery_listing_exact:
  assumes "e \<noteq> []" and "User_objects_get db e = Inr V"
  shows "ProjectsDisplayView_get_queryset db (Some e) None None =
           Inr (filter (\<lambda>p. p_owner p \<noteq> u_id V
                  \<and> (\<forall>r \<in> set (projectrequest_tbl db). \<not> (r_member r = u_id V \<and> r_project r = p_id p))
                  \<and> (\<forall>m \<in> set (projectmembers_tbl db). \<not> (m_member m = u_id V \<and> m_project m = p_id p)))
                (projectlead_tbl db))
       \<and> ProjectsDisplayView_get_queryset db (Some e) frontend backend =
           Inr (filter (\<lambda>p. p_owner p \<noteq> u_id V
                  \<and> (\<forall>r \<in> set (projectrequest_tbl db). \<not> (r_member r = u_id V \<and> r_project r = p_id p))
                  \<and> (\<forall>m \<in> set (projectmembers_tbl db). \<not> (m_member m = u_id V \<and> m_project m = p_id p)))
                (skill_filter frontend backend (projectlead_tbl db)))
       \<and> (\<forall>xs. ProjectsDisplayView_get_queryset (db\<lparr>projectrequestrejected_tbl := xs\<rparr>)
                  (Some e) frontend backend
               = ProjectsDisplayView_get_queryset db (Some e) frontend backend)"
proof -
  have lookup: "User_objects_get (db\<lparr>projectrequestrejected_tbl := xs\<rparr>) e = Inr V" for xs
    using assms(2) by (simp add: User_objects_get_def)
  have none: "skill_filter None None (projectlead_tbl db) = projectlead_tbl db"
    by (simp add: skill_filter_def)
  show ?thesis
    using discovery_known[OF assms, of None None] discovery_known[OF assms, of frontend backend]
      discovery_known[OF assms(1) lookup, of _ frontend backend]
    by (simp add: none)
qed

text \<open>
  In the scenario store \<open>bob\<close> sees project Q only: P is pending, R is joined, S is his own,
  and Q is listed although a rejected row for (Q, bob) exists.
\<close>

theorem discovery_listing_exact_witness:
  "''b@x.com'' \<noteq> [] \<and> User_objects_get db_example ''b@x.com'' = Inr bob
   \<and> ProjectsDisplayView_get_queryset db_example (Some ''b@x.com'') None None = Inr [project_Q]
   \<and> list_ex (\<lambda>x. x_user x = u_id bob \<and> x_project x = p_id project_Q)
        (projectrequestrejected_tbl db_example)"
  using discovery_listing_exact[of "''b@x.com''" db_example bob None None]
  by (simp add: User_objects_get_def example_defs)

text \<open>
  Claim C8.  For a viewer whose (non-empty) email is that of a registered user: with both
  filters \<^verbatim>\<open>"true"\<close> the listing is the one obtained with no filter parameter at all; with
  the frontend filter \<^verbatim>\<open>"true"\<close> and the backend filter anything else it is that listing
  restricted to the projects whose \<^verbatim>\<open>frontend\<close> flag is set, and symmetrically for the
  backend filter.
\<close>

theorem discovery_skill_filter:
  assumes "e \<noteq> []" and "User_objects_get db e = Inr V"
  shows "(\<exists>qs. ProjectsDisplayView_get_queryset db (Some e) None None = Inr qs
            \<and> ProjectsDisplayView_get_queryset db (Some e) (Some ''true'') (Some ''true'') = Inr qs
            \<and> (backend \<noteq> Some ''true'' \<longrightarrow>
                 ProjectsDisplayView_get_queryset db (Some e) (Some ''true'') backend
                   = Inr (filter (\<lambda>p. p_frontend p) qs))
            \<and> (frontend \<noteq> Some ''true'' \<longrightarrow>
                 ProjectsDisplayView_get_queryset db (Some e) frontend (Some ''true'')
                   = Inr (filter (\<lambda>p. p_backend p) qs)))"
  using assms
  by (simp add: discovery_known skill_filter_def conj_commute conj_left_commute cong: filter_cong)

theorem discovery_skill_filter_witness:
  "''b@x.com'' \<noteq> [] \<and> User_objects_get db_example ''b@x.com'' = Inr bob
   \<and> ProjectsDisplayView_get_queryset db_example (Some ''b@x.com'') (Some ''true'') (Some ''true'')
        = Inr [project_Q]
   \<and> p_frontend project_Q = False
   \<and> ProjectsDisplayView_get_queryset db_example (Some ''b@x.com'') (Some ''true'') None = Inr []
   \<and> ProjectsDisplayView_get_queryset db_example (Some ''b@x.com'') (Some ''false'') (Some ''true'')
        = Inr [project_Q]"
proof -
  have h1: "''b@x.com'' \<noteq> []" by simp
  have h2: "User_objects_get db_example ''b@x.com'' = Inr bob"
    by (simp add: User_objects_get_def example_defs)
  have unfiltered:
    "ProjectsDisplayView_get_queryset db_example (Some ''b@x.com'') None None = Inr [project_Q]"
    by (simp add: ProjectsDisplayView_get_queryset_def display_lookup_def display_exclusions_def
        skill_filter_def exclude_def User_objects_get_def example_defs)
  have flags: "p_frontend project_Q = False" "p_backend project_Q = True"
    by (simp_all add: project_Q_def)
  show ?thesis
    using discovery_skill_filter[OF h1 h2, of None "Some ''false''"] h2 unfiltered flags
    by auto
qed

text \<open>
  Claim C9.  When the email parameter is present and non-empty but no registered user has
  that email, the discovery listing returns no list: the failed lookup is swallowed, the
  local variable \<^verbatim>\<open>user\<close> is never bound, and reading it at the pending-request filter
  raises \<^verbatim>\<open>UnboundLocalError\<close>, whatever the filter parameters are.
\<close>

theorem discovery_unknown_email_raises:
  assumes "e \<noteq> []" and "e \<notin> set (map u_email (users_tbl db))"
  shows "ProjectsDisplayView_get_queryset db (Some e) frontend backend
           = Inl (UnboundLocalError ''user'')"
  using assms(1) User_objects_get_unknown_map[OF assms(2)]
  by (simp add: ProjectsDisplayView_get_queryset_def display_lookup_def display_exclusions_def)

theorem discovery_unknown_email_raises_witness:
  "''z@x.com'' \<noteq> [] \<and> ''z@x.com'' \<notin> set (map u_email (users_tbl db_example))
   \<and> ProjectsDisplayView_get_queryset db_example (Some ''z@x.com'') None None
        = Inl (UnboundLocalError ''user'')"
  using discovery_unknown_email_raises[of "''z@x.com''" db_example None None]
  by (simp add: example_defs)

section \<open>The summary counts\<close>

text \<open>
  Claim C5.  \<^verbatim>\<open>ProjectCountView.list\<close>: with the email parameter absent (or empty, which
  the truth test does not tell from absent) the response is a 400; with a non-empty email
  that no user has it is a 404; with the email of a registered user it is a 200 whose three
  counts are the number of projects the user owns, of membership rows and of pending request
  rows of the user.
\<close>

theorem project_count_exact:
  "ProjectCountView_list db None
      = Inr \<lparr>resp_data = Error_data ''Email query parameter is required'', resp_status = 400\<rparr>
   \<and> ProjectCountView_list db (Some [])
      = Inr \<lparr>resp_data = Error_data ''Email query parameter is required'', resp_status = 400\<rparr>
   \<and> (e \<noteq> [] \<and> e \<notin> set (map u_email (users_tbl db)) \<longrightarrow>
        ProjectCountView_list db (Some e)
          = Inr \<lparr>resp_data = Error_data ''User not found'', resp_status = 404\<rparr>)
   \<and> (e \<noteq> [] \<and> User_objects_get db e = Inr user \<longrightarrow>
        ProjectCountView_list db (Some e)
          = Inr \<lparr>resp_data = Count_data
                    (length (filter (\<lambda>p. p_owner p = u_id user) (projectlead_tbl db)))
                    (length (filter (\<lambda>m. m_member m = u_id user) (projectmembers_tbl db)))
                    (length (filter (\<lambda>r. r_member r = u_id user) (projectrequest_tbl db))),
                  resp_status = 200\<rparr>)"
  by (auto simp: ProjectCountView_list_def User_objects_get_unknown_map)

theorem project_count_exact_witness:
  "''b@x.com'' \<noteq> [] \<and> User_objects_get db_example ''b@x.com'' = Inr bob
   \<and> ProjectCountView_list db_example (Some ''b@x.com'')
        = Inr \<lparr>resp_data = Count_data 1 1 1, resp_status = 200\<rparr>
   \<and> ''z@x.com'' \<notin> set (map u_email (users_tbl db_example))
   \<and> ProjectCountView_list db_example (Some ''z@x.com'')
        = Inr \<lparr>resp_data = Error_data ''User not found'', resp_status = 404\<rparr>"
  using project_count_exact[of db_example "''b@x.com''" bob]
    project_count_exact[of db_example "''z@x.com''" bob]
  by (simp add: User_objects_get_def example_defs)

section \<open>The owner's listing\<close>

lemma owner_has_email_iff:
  assumes "User_objects_get db e = Inr u"
  shows "list_ex (\<lambda>v. u_id v = p_owner p \<and> u_email v = e) (users_tbl db) \<longrightarrow> p_owner p = u_id u"
proof
  assume "list_ex (\<lambda>v. u_id v = p_owner p \<and> u_email v = e) (users_tbl db)"
  then obtain v where v: "v \<in> set (users_tbl db)" "u_id v = p_owner p" "u_email v = e"
    by (auto simp: list_ex_iff)
  from assms have "filter (\<lambda>u. u_email u = e) (users_tbl db) = [u]"
    by (simp add: User_objects_get_def objects_get_Inr_iff)
  moreover from v have "v \<in> set (filter (\<lambda>u. u_email u = e) (users_tbl db))" by simp
  ultimately have "v = u" by simp
  with v show "p_owner p = u_id u" by simp
qed

text \<open>
  Claim C6 says that an email of no registered user gives the empty list.  In the scenario
  store no user has the email \<^verbatim>\<open>z@x.com\<close>, and \<^verbatim>\<open>ProjectLeadView.get_queryset\<close> returns
  all four projects: the handler of \<^verbatim>\<open>User.DoesNotExist\<close> is \<^verbatim>\<open>pass\<close>, which leaves the
  unfiltered queryset in place.
\<close>

theorem list_owned_counterexample:
  "''z@x.com'' \<notin> set (map u_email (users_tbl db_example))
   \<and> ProjectLeadView_get_queryset db_example (Some ''z@x.com'')
        = Inr [project_P, project_Q, project_R, project_S]
   \<and> ProjectLeadView_get_queryset db_example (Some ''z@x.com'') \<noteq> Inr []"
  by (simp add: ProjectLeadView_get_queryset_def User_objects_get_def example_defs)

text \<open>
  Claim C6, amended.  For a non-empty email of a registered user \<open>u\<close> the listing is exactly
  the projects whose owner is \<open>u\<close>, and these are the projects whose owner row has that
  email; for an email that no registered user has, the listing is every project of the
  table (not an error, and not the empty list).
\<close>

theorem list_owned_amended:
  "(e \<noteq> [] \<and> User_objects_get db e = Inr u \<longrightarrow>
       ProjectLeadView_get_queryset db (Some e)
         = Inr (filter (\<lambda>p. p_owner p = u_id u) (projectlead_tbl db))
     \<and> (\<forall>p \<in> set (projectlead_tbl db).
           list_ex (\<lambda>v. u_id v = p_owner p \<and> u_email v = e) (users_tbl db)
             \<longleftrightarrow> p_owner p = u_id u))
   \<and> (e \<notin> set (map u_email (users_tbl db)) \<longrightarrow>
       ProjectLeadView_get_queryset db (Some e) = Inr (projectlead_tbl db))"
proof (intro conjI impI)
  assume a: "e \<noteq> [] \<and> User_objects_get db e = Inr u"
  then show "ProjectLeadView_get_queryset db (Some e)
         = Inr (filter (\<lambda>p. p_owner p = u_id u) (projectlead_tbl db))"
    by (simp add: ProjectLeadView_get_queryset_def)
  from a have u: "u \<in> set (users_tbl db)" "u_email u = e"
    using User_objects_get_Inr_email by blast+
  show "\<forall>p \<in> set (projectlead_tbl db).
           list_ex (\<lambda>v. u_id v = p_owner p \<and> u_email v = e) (users_tbl db)
             \<longleftrightarrow> p_owner p = u_id u"
  proof
    fix p
    show "list_ex (\<lambda>v. u_id v = p_owner p \<and> u_email v = e) (users_tbl db) \<longleftrightarrow> p_owner p = u_id u"
      using owner_has_email_iff[of db e u p] a u by (auto simp: list_ex_iff)
  qed
next
  assume "e \<notin> set (map u_email (users_tbl db))"
  then show "ProjectLeadView_get_queryset db (Some e) = Inr (projectlead_tbl db)"
    by (simp add: ProjectLeadView_get_queryset_def Let_def User_objects_get_unknown_image)
qed

theorem list_owned_amended_witness:
  "''a@x.com'' \<noteq> [] \<and> User_objects_get db_example ''a@x.com'' = Inr alice
   \<and> ProjectLeadView_get_queryset db_example (Some ''a@x.com'')
        = Inr [project_P, project_Q, project_R]
   \<and> ''z@x.com'' \<notin> set (map u_email (users_tbl db_example))
   \<and> ProjectLeadView_get_queryset db_example (Some ''z@x.com'')
        = Inr [project_P, project_Q, project_R, project_S]"
  using list_owned_amended[of "''a@x.com''" db_example alice]
    list_owned_amended[of "''z@x.com''" db_example alice]
  by (simp add: User_objects_get_def example_defs)

section \<open>The scoped listings\<close>

text \<open>
  Claim C10.  The four scoped listings fall back to the whole table.  When the email
  parameter is absent or empty, or no registered user has it, the joined-projects and
  pending-projects listings return every membership row and every request row, and so do
  the two listings that also take a project name; these two do the same when the project
  name is absent or empty, or when the user found owns no project of that name.
\<close>

theorem scoped_listings_fall_back:
  "(\<not> truthy email \<or> (\<exists>e. email = Some e \<and> e \<notin> set (map u_email (users_tbl db))) \<longrightarrow>
       JoinedProjectDisplayView_get_queryset db email = Inr (projectmembers_tbl db)
     \<and> PendingProjectsView_get_queryset db email = Inr (projectrequest_tbl db)
     \<and> ProjectRequestDisplayView_get_queryset db email projectname = Inr (projectrequest_tbl db)
     \<and> ProjectMembersDisplayView_get_queryset db email projectname = Inr (projectmembers_tbl db))
   \<and> (\<not> truthy projectname \<or>
        (\<exists>e n user. email = Some e \<and> projectname = Some n \<and> User_objects_get db e = Inr user
           \<and> (u_id user, n) \<notin> set (map (\<lambda>p. (p_owner p, p_projectname p)) (projectlead_tbl db))) \<longrightarrow>
       ProjectRequestDisplayView_get_queryset db email projectname = Inr (projectrequest_tbl db)
     \<and> ProjectMembersDisplayView_get_queryset db email projectname = Inr (projectmembers_tbl db))"
  by (cases email; cases projectname)
     (auto simp: JoinedProjectDisplayView_get_queryset_def PendingProjectsView_get_queryset_def
        ProjectRequestDisplayView_get_queryset_def ProjectMembersDisplayView_get_queryset_def
        Let_def User_objects_get_unknown_image ProjectLead_objects_get_none)

theorem scoped_listings_fall_back_witness:
  "\<not> truthy None
   \<and> JoinedProjectDisplayView_get_queryset db_example None = Inr [member_1]
   \<and> ''z@x.com'' \<notin> set (map u_email (users_tbl db_example))
   \<and> PendingProjectsView_get_queryset db_example (Some ''z@x.com'') = Inr [request_1]
   \<and> User_objects_get db_example ''b@x.com'' = Inr bob
   \<and> (u_id bob, ''P'') \<notin> set (map (\<lambda>p. (p_owner p, p_projectname p)) (projectlead_tbl db_example))
   \<and> ProjectRequestDisplayView_get_queryset db_example (Some ''b@x.com'') (Some ''P'') = Inr [request_1]
   \<and> ProjectMembersDisplayView_get_queryset db_example (Some ''b@x.com'') (Some ''P'') = Inr [member_1]
   \<and> ProjectMembersDisplayView_get_queryset db_example (Some ''a@x.com'') None = Inr [member_1]"
  using scoped_listings_fall_back[of None db_example None]
    scoped_listings_fall_back[of "Some ''z@x.com''" db_example None]
    scoped_listings_fall_back[of "Some ''b@x.com''" db_example "Some ''P''"]
    scoped_listings_fall_back[of "Some ''a@x.com''" db_example None]
  by (simp add: User_objects_get_def example_defs)

section \<open>Join requests: the uniqueness of (project, member)\<close>

lemma request_create_frame:
  "projectrequest_tbl (fst (ProjectLeadCreateSerializer_create db l)) = projectrequest_tbl db"
  "projectrequest_tbl (fst (ProjectMemberCreateSerializer_create db d)) = projectrequest_tbl db"
  "projectrequest_tbl (fst (ProjectRejectedCreateSerializer_create db d)) = projectrequest_tbl db"
  "projectrequest_tbl (fst (UsersCreateSerializer_create h db u)) = projectrequest_tbl db"
  by (auto simp: ProjectLeadCreateSerializer_create_def ProjectLead_objects_create_def
      ProjectMemberCreateSerializer_create_def ProjectMembers_objects_create_def
      ProjectRejectedCreateSerializer_create_def ProjectRequestRejected_objects_create_def
      UsersCreateSerializer_create_def create_user_def Users_save_def Let_def
      split: sum.splits option.splits prod.splits)

lemma ProjectRequest_objects_create_distinct:
  assumes "distinct (map (\<lambda>r. (r_project r, r_member r)) (projectrequest_tbl db))"
  shows "distinct (map (\<lambda>r. (r_project r, r_member r))
           (projectrequest_tbl (fst (ProjectRequest_objects_create db p m msg))))"
  using assms
  by (auto simp: ProjectRequest_objects_create_def Let_def list_ex_iff)

lemma request_join_distinct:
  assumes "distinct (map (\<lambda>r. (r_project r, r_member r)) (projectrequest_tbl db))"
  shows "distinct (map (\<lambda>r. (r_project r, r_member r))
           (projectrequest_tbl (fst (ProjectRequestCreateSerializer_create db d))))"
  using assms ProjectRequest_objects_create_distinct[OF assms]
  by (simp add: ProjectRequestCreateSerializer_create_def Let_def split: sum.splits)

lemma apply_operation_requests_distinct:
  assumes "distinct (map (\<lambda>r. (r_project r, r_member r)) (projectrequest_tbl db))"
  shows "distinct (map (\<lambda>r. (r_project r, r_member r))
           (projectrequest_tbl (apply_operation h db op)))"
  using assms by (cases op) (simp_all add: request_create_frame request_join_distinct)

lemma foldl_requests_distinct:
  "distinct (map (\<lambda>r. (r_project r, r_member r)) (projectrequest_tbl db)) \<Longrightarrow>
   distinct (map (\<lambda>r. (r_project r, r_member r))
     (projectrequest_tbl (foldl (apply_operation h) db ops)))"
  by (induction ops arbitrary: db) (simp_all add: apply_operation_requests_distinct)

lemma run_requests_distinct:
  "distinct (map (\<lambda>r. (r_project r, r_member r)) (projectrequest_tbl (run_operations h ops)))"
  unfolding run_operations_def by (rule foldl_requests_distinct) (simp add: empty_db_def)

lemma distinct_map_filter_le_1:
  "distinct (map f xs) \<Longrightarrow> length (filter (\<lambda>x. f x = k) xs) \<le> 1"
proof (induction xs)
  case Nil
  then show ?case by simp
next
  case (Cons a xs)
  show ?case
  proof (cases "f a = k")
    case True
    with Cons.prems have "k \<notin> f ` set xs" by auto
    then have "filter (\<lambda>x. f x = k) xs = []" by (auto simp: filter_empty_conv)
    with True show ?thesis by simp
  next
    case False
    with Cons show ?thesis by simp
  qed
qed

text \<open>
  Claim C2 says that a second join request for a pair that already has a pending row fails
  with a typed error reported as a 400 response.  In the scenario store \<open>bob\<close> has a pending
  row for P; the second request raises the store's \<^verbatim>\<open>IntegrityError\<close> from the insert,
  which no handler of the serializer or of the view catches, so the caller gets a 500.
\<close>

theorem duplicate_request_counterexample:
  "list_ex (\<lambda>r. r_project r = p_id project_P \<and> r_member r = u_id bob) (projectrequest_tbl db_example)
   \<and> ProjectRequestCreateSerializer_create db_example duplicate_request
        = (db_example, Inl IntegrityError)
   \<and> http_status_of_error IntegrityError = 500
   \<and> http_status_of_error IntegrityError \<noteq> 400"
  by (simp add: ProjectRequestCreateSerializer_create_def ProjectRequest_objects_create_def
      User_objects_get_def ProjectLead_objects_get_def duplicate_request_def example_defs)

text \<open>
  Claim C2, amended.  When the three lookups of \<^verbatim>\<open>ProjectRequestCreateSerializer.create\<close>
  succeed and a pending row for the (project, member) pair exists, the call raises
  \<^verbatim>\<open>IntegrityError\<close> (a 500 for the caller, not a validation error) and leaves the store
  unchanged; in particular a call that repeats the emails and project name of a call that
  has just succeeded fails so.  In every store reached from the empty one through the write
  endpoints, each (project, member) pair has at most one pending row.
\<close>

theorem duplicate_request_integrity_error:
  "(User_objects_get db (rd_owner_email d) = Inr owner
      \<and> User_objects_get db (rd_member_email d) = Inr member
      \<and> ProjectLead_objects_get db owner (rd_projectname d) = Inr project
      \<and> list_ex (\<lambda>r. r_project r = p_id project \<and> r_member r = u_id member) (projectrequest_tbl db)
     \<longrightarrow> ProjectRequestCreateSerializer_create db d = (db, Inl IntegrityError))
   \<and> http_status_of_error IntegrityError = 500
   \<and> (ProjectRequestCreateSerializer_create db d = (db1, Inr new_request)
       \<and> rd_owner_email d2 = rd_owner_email d \<and> rd_projectname d2 = rd_projectname d
       \<and> rd_member_email d2 = rd_member_email d
     \<longrightarrow> ProjectRequestCreateSerializer_create db1 d2 = (db1, Inl IntegrityError))
   \<and> length (filter (\<lambda>r. r_project r = p \<and> r_member r = m)
        (projectrequest_tbl (run_operations make_password ops))) \<le> 1"
proof (intro conjI impI)
  assume "User_objects_get db (rd_owner_email d) = Inr owner
      \<and> User_objects_get db (rd_member_email d) = Inr member
      \<and> ProjectLead_objects_get db owner (rd_projectname d) = Inr project
      \<and> list_ex (\<lambda>r. r_project r = p_id project \<and> r_member r = u_id member) (projectrequest_tbl db)"
  then show "ProjectRequestCreateSerializer_create db d = (db, Inl IntegrityError)"
    by (simp add: ProjectRequestCreateSerializer_create_def ProjectRequest_objects_create_def)
next
  show "http_status_of_error IntegrityError = 500" by simp
next
  assume a: "ProjectRequestCreateSerializer_create db d = (db1, Inr new_request)
       \<and> rd_owner_email d2 = rd_owner_email d \<and> rd_projectname d2 = rd_projectname d
       \<and> rd_member_email d2 = rd_member_email d"
  then obtain owner member project where
    l: "User_objects_get db (rd_owner_email d) = Inr owner"
       "User_objects_get db (rd_member_email d) = Inr member"
       "ProjectLead_objects_get db owner (rd_projectname d) = Inr project"
    and c: "ProjectRequest_objects_create db (p_id project) (u_id member)
              (case rd_message d of None \<Rightarrow> ''I am interested in joining this project'' | Some m \<Rightarrow> m)
            = (db1, Inr new_request)"
    by (auto simp: ProjectRequestCreateSerializer_create_def Let_def split: sum.splits if_splits)
  from c have db1: "users_tbl db1 = users_tbl db" "projectlead_tbl db1 = projectlead_tbl db"
    and ex: "list_ex (\<lambda>r. r_project r = p_id project \<and> r_member r = u_id member)
               (projectrequest_tbl db1)"
    by (auto simp: ProjectRequest_objects_create_def Let_def split: if_splits)
  from l db1 a have
    "User_objects_get db1 (rd_owner_email d2) = Inr owner"
    "User_objects_get db1 (rd_member_email d2) = Inr member"
    "ProjectLead_objects_get db1 owner (rd_projectname d2) = Inr project"
    by (simp_all add: User_objects_get_def ProjectLead_objects_get_def)
  with ex show "ProjectRequestCreateSerializer_create db1 d2 = (db1, Inl IntegrityError)"
    by (simp add: ProjectRequestCreateSerializer_create_def ProjectRequest_objects_create_def)
next
  have "length (filter (\<lambda>r. (r_project r, r_member r) = (p, m))
        (projectrequest_tbl (run_operations make_password ops))) \<le> 1"
    by (rule distinct_map_filter_le_1) (rule run_requests_distinct)
  then show "length (filter (\<lambda>r. r_project r = p \<and> r_member r = m)
        (projectrequest_tbl (run_operations make_password ops))) \<le> 1"
    by simp
qed

text \<open>
  In the scenario store: the repeated request for P fails; a first request for Q inserts
  row 2 and the same request made again fails.
\<close>

theorem duplicate_request_integrity_error_witness:
  "User_objects_get db_example (rd_owner_email duplicate_request) = Inr alice
   \<and> User_objects_get db_example (rd_member_email duplicate_request) = Inr bob
   \<and> ProjectLead_objects_get db_example alice (rd_projectname duplicate_request) = Inr project_P
   \<and> list_ex (\<lambda>r. r_project r = p_id project_P \<and> r_member r = u_id bob)
        (projectrequest_tbl db_example)
   \<and> ProjectRequestCreateSerializer_create db_example duplicate_request
        = (db_example, Inl IntegrityError)
   \<and> ProjectRequestCreateSerializer_create db_example request_for_Q
        = (db_example\<lparr>projectrequest_tbl := [request_1, request_2]\<rparr>, Inr request_2)
   \<and> ProjectRequestCreateSerializer_create (db_example\<lparr>projectrequest_tbl := [request_1, request_2]\<rparr>)
        request_for_Q
        = (db_example\<lparr>projectrequest_tbl := [request_1, request_2]\<rparr>, Inl IntegrityError)"
proof -
  have first: "ProjectRequestCreateSerializer_create db_example request_for_Q
        = (db_example\<lparr>projectrequest_tbl := [request_1, request_2]\<rparr>, Inr request_2)"
    by (simp add: ProjectRequestCreateSerializer_create_def ProjectRequest_objects_create_def
        User_objects_get_def ProjectLead_objects_get_def fresh_id_def Let_def scenario_defs)
  have lookups: "User_objects_get db_example (rd_owner_email duplicate_request) = Inr alice"
    "User_objects_get db_example (rd_member_email duplicate_request) = Inr bob"
    "ProjectLead_objects_get db_example alice (rd_projectname duplicate_request) = Inr project_P"
    "list_ex (\<lambda>r. r_project r = p_id project_P \<and> r_member r = u_id bob)
        (projectrequest_tbl db_example)"
    by (simp_all add: User_objects_get_def ProjectLead_objects_get_def scenario_defs)
  show ?thesis
    using duplicate_request_integrity_error[where db = db_example and d = duplicate_request
        and owner = alice and member = bob and project = project_P]
      duplicate_request_integrity_error[where db = db_example and d = request_for_Q
        and ?db1.0 = "db_example\<lparr>projectrequest_tbl := [request_1, request_2]\<rparr>"
        and new_request = request_2 and ?d2.0 = request_for_Q]
      first lookups
    by simp
qed

section \<open>Creating a project: unknown owner and duplicate name\<close>

lemma projectlead_frame:
  "projectlead_tbl (fst (ProjectRequestCreateSerializer_create db r)) = projectlead_tbl db"
  "projectlead_tbl (fst (ProjectMemberCreateSerializer_create db d)) = projectlead_tbl db"
  "projectlead_tbl (fst (ProjectRejectedCreateSerializer_create db d)) = projectlead_tbl db"
  "projectlead_tbl (fst (UsersCreateSerializer_create h db u)) = projectlead_tbl db"
  by (auto simp: ProjectRequestCreateSerializer_create_def ProjectRequest_objects_create_def
      ProjectMemberCreateSerializer_create_def ProjectMembers_objects_create_def
      ProjectRejectedCreateSerializer_create_def ProjectRequestRejected_objects_create_def
      UsersCreateSerializer_create_def create_user_def Users_save_def Let_def
      split: sum.splits option.splits prod.splits)

lemma create_project_distinct:
  assumes "distinct (map (\<lambda>p. (p_owner p, p_projectname p)) (projectlead_tbl db))"
  shows "distinct (map (\<lambda>p. (p_owner p, p_projectname p))
           (projectlead_tbl (fst (ProjectLeadCreateSerializer_create db d))))"
  using assms
  by (auto simp: ProjectLeadCreateSerializer_create_def ProjectLead_objects_create_def Let_def
      list_ex_iff split: sum.splits option.splits)

lemma apply_operation_projects_distinct:
  assumes "distinct (map (\<lambda>p. (p_owner p, p_projectname p)) (projectlead_tbl db))"
  shows "distinct (map (\<lambda>p. (p_owner p, p_projectname p))
           (projectlead_tbl (apply_operation h db op)))"
  using assms by (cases op) (simp_all add: projectlead_frame create_project_distinct)

lemma foldl_projects_distinct:
  "distinct (map (\<lambda>p. (p_owner p, p_projectname p)) (projectlead_tbl db)) \<Longrightarrow>
   distinct (map (\<lambda>p. (p_owner p, p_projectname p))
     (projectlead_tbl (foldl (apply_operation h) db ops)))"
  by (induction ops arbitrary: db) (simp_all add: apply_operation_projects_distinct)

lemma run_projects_distinct:
  "distinct (map (\<lambda>p. (p_owner p, p_projectname p)) (projectlead_tbl (run_operations h ops)))"
  unfolding run_operations_def by (rule foldl_projects_distinct) (simp add: empty_db_def)

text \<open>
  Claim C4 says that creating a project whose (owner, name) pair exists fails with a typed
  error.  In the scenario store \<open>alice\<close> owns P; creating P again for her raises the store's
  \<^verbatim>\<open>IntegrityError\<close>, which \<^verbatim>\<open>ProjectLeadCreateSerializer.create\<close> does not catch.
\<close>

theorem duplicate_project_counterexample:
  "User_objects_get db_example (ld_email duplicate_project) = Inr alice
   \<and> list_ex (\<lambda>p. p_owner p = u_id alice \<and> p_projectname p = ld_projectname duplicate_project)
        (projectlead_tbl db_example)
   \<and> ProjectLeadCreateSerializer_create db_example duplicate_project
        = (db_example, Inl IntegrityError)
   \<and> http_status_of_error IntegrityError = 500"
  by (simp add: ProjectLeadCreateSerializer_create_def ProjectLead_objects_create_def
      User_objects_get_def scenario_defs)

text \<open>
  Claim C4, amended.  \<^verbatim>\<open>ProjectLeadCreateSerializer.create\<close> with an owner email that no
  user has raises the validation error keyed \<^verbatim>\<open>email\<close> (a 400) and leaves the store
  unchanged.  With the email of a registered owner, both flags given and a project of that
  owner with that name present, it raises \<^verbatim>\<open>IntegrityError\<close> (a 500) and leaves the store
  unchanged.  In every store reached from the empty one through the write endpoints, each
  (owner, name) pair has at most one project.
\<close>

theorem create_project_errors:
  "(ld_email d \<notin> set (map u_email (users_tbl db)) \<longrightarrow>
      ProjectLeadCreateSerializer_create db d
        = (db, Inl (ValidationError ''email'' ''User with this email does not exist'')))
   \<and> http_status_of_error (ValidationError ''email'' ''User with this email does not exist'') = 400
   \<and> (User_objects_get db (ld_email d) = Inr owner
        \<and> ld_frontend d = Some frontend \<and> ld_backend d = Some backend
        \<and> list_ex (\<lambda>p. p_owner p = u_id owner \<and> p_projectname p = ld_projectname d)
             (projectlead_tbl db) \<longrightarrow>
      ProjectLeadCreateSerializer_create db d = (db, Inl IntegrityError))
   \<and> http_status_of_error IntegrityError = 500
   \<and> length (filter (\<lambda>p. p_owner p = ow \<and> p_projectname p = n)
        (projectlead_tbl (run_operations make_password ops))) \<le> 1"
proof (intro conjI impI)
  assume "ld_email d \<notin> set (map u_email (users_tbl db))"
  then show "ProjectLeadCreateSerializer_create db d
        = (db, Inl (ValidationError ''email'' ''User with this email does not exist''))"
    by (simp add: ProjectLeadCreateSerializer_create_def User_objects_get_unknown_image)
next
  assume "User_objects_get db (ld_email d) = Inr owner
        \<and> ld_frontend d = Some frontend \<and> ld_backend d = Some backend
        \<and> list_ex (\<lambda>p. p_owner p = u_id owner \<and> p_projectname p = ld_projectname d)
             (projectlead_tbl db)"
  then show "ProjectLeadCreateSerializer_create db d = (db, Inl IntegrityError)"
    by (simp add: ProjectLeadCreateSerializer_create_def ProjectLead_objects_create_def)
next
  have "length (filter (\<lambda>p. (p_owner p, p_projectname p) = (ow, n))
        (projectlead_tbl (run_operations make_password ops))) \<le> 1"
    by (rule distinct_map_filter_le_1) (rule run_projects_distinct)
  then show "length (filter (\<lambda>p. p_owner p = ow \<and> p_projectname p = n)
        (projectlead_tbl (run_operations make_password ops))) \<le> 1"
    by simp
qed simp_all

theorem create_project_errors_witness:
  "ld_email unknown_owner_project \<notin> set (map u_email (users_tbl db_example))
   \<and> ProjectLeadCreateSerializer_create db_example unknown_owner_project
        = (db_example, Inl (ValidationError ''email'' ''User with this email does not exist''))
   \<and> User_objects_get db_example (ld_email duplicate_project) = Inr alice
   \<and> ld_frontend duplicate_project = Some True \<and> ld_backend duplicate_project = Some False
   \<and> list_ex (\<lambda>p. p_owner p = u_id alice \<and> p_projectname p = ld_projectname duplicate_project)
        (projectlead_tbl db_example)
   \<and> ProjectLeadCreateSerializer_create db_example duplicate_project
        = (db_example, Inl IntegrityError)"
proof -
  have hyps: "ld_email unknown_owner_project \<notin> set (map u_email (users_tbl db_example))"
    "User_objects_get db_example (ld_email duplicate_project) = Inr alice"
    "ld_frontend duplicate_project = Some True" "ld_backend duplicate_project = Some False"
    "list_ex (\<lambda>p. p_owner p = u_id alice \<and> p_projectname p = ld_projectname duplicate_project)
        (projectlead_tbl db_example)"
    by (simp_all add: User_objects_get_def scenario_defs)
  show ?thesis
    using create_project_errors[where db = db_example and d = unknown_owner_project]
      create_project_errors[where db = db_example and d = duplicate_project and owner = alice
        and frontend = True and backend = False]
      hyps
    by simp
qed

section \<open>Accepting and rejecting\<close>

lemma lookups_requests_irrelevant:
  "User_objects_get (db\<lparr>projectrequest_tbl := rs\<rparr>) e = User_objects_get db e"
  "ProjectLead_objects_get (db\<lparr>projectrequest_tbl := rs\<rparr>) u n = ProjectLead_objects_get db u n"
  by (simp_all add: User_objects_get_def ProjectLead_objects_get_def)

lemma decision_lookups_requests_irrelevant:
  "decision_lookups (db\<lparr>projectrequest_tbl := rs\<rparr>) d = decision_lookups db d"
  by (simp add: decision_lookups_def lookups_requests_irrelevant cong: sum.case_cong)

lemma decision_lookups_Inr:
  "User_objects_get db (dd_owner d) = Inr owner \<Longrightarrow>
   User_objects_get db (dd_email d) = Inr member \<Longrightarrow>
   ProjectLead_objects_get db owner (dd_projectname d) = Inr project \<Longrightarrow>
   dd_message d = Some message \<Longrightarrow>
   decision_lookups db d = Inr (project, member, message)"
  by (simp add: decision_lookups_def)

lemma accept_outcome_requests_irrelevant:
  "snd (ProjectMemberCreateSerializer_create (db\<lparr>projectrequest_tbl := rs\<rparr>) d)
     = snd (ProjectMemberCreateSerializer_create db d)"
  by (simp add: ProjectMemberCreateSerializer_create_def decision_lookups_requests_irrelevant
      ProjectMembers_objects_create_def Let_def split: sum.splits prod.splits)

lemma reject_outcome_requests_irrelevant:
  "snd (ProjectRejectedCreateSerializer_create (db\<lparr>projectrequest_tbl := rs\<rparr>) d)
     = snd (ProjectRejectedCreateSerializer_create db d)"
  by (simp add: ProjectRejectedCreateSerializer_create_def decision_lookups_requests_irrelevant
      ProjectRequestRejected_objects_create_def Let_def split: sum.splits prod.splits)

text \<open>
  Claim C3.  Accepting and rejecting never write the table of pending requests, and their
  outcome (the row returned or the exception raised) is the same whatever that table holds.
  When the three lookups succeed and the message is given, accepting succeeds unless the
  pair is already a member, and rejecting succeeds unless the pair is already rejected: no
  pending row is asked for, and none is removed.
\<close>

theorem accept_reject_ignore_pending:
  "projectrequest_tbl (fst (ProjectMemberCreateSerializer_create db d)) = projectrequest_tbl db
   \<and> projectrequest_tbl (fst (ProjectRejectedCreateSerializer_create db d)) = projectrequest_tbl db
   \<and> snd (ProjectMemberCreateSerializer_create (db\<lparr>projectrequest_tbl := rs\<rparr>) d)
        = snd (ProjectMemberCreateSerializer_create db d)
   \<and> snd (ProjectRejectedCreateSerializer_create (db\<lparr>projectrequest_tbl := rs\<rparr>) d)
        = snd (ProjectRejectedCreateSerializer_create db d)
   \<and> (User_objects_get db (dd_owner d) = Inr owner
        \<and> User_objects_get db (dd_email d) = Inr member
        \<and> ProjectLead_objects_get db owner (dd_projectname d) = Inr project
        \<and> dd_message d = Some message
      \<longrightarrow>
        (\<not> list_ex (\<lambda>m. m_project m = p_id project \<and> m_member m = u_id member)
               (projectmembers_tbl db) \<longrightarrow>
           (\<exists>new_joinee. ProjectMemberCreateSerializer_create db d
                = (db\<lparr>projectmembers_tbl := projectmembers_tbl db @ [new_joinee]\<rparr>, Inr new_joinee)
              \<and> m_project new_joinee = p_id project \<and> m_member new_joinee = u_id member))
      \<and> (\<not> list_ex (\<lambda>x. x_project x = p_id project \<and> x_user x = u_id member)
               (projectrequestrejected_tbl db) \<longrightarrow>
           (\<exists>new_reject. ProjectRejectedCreateSerializer_create db d
                = (db\<lparr>projectrequestrejected_tbl := projectrequestrejected_tbl db @ [new_reject]\<rparr>,
                   Inr new_reject)
              \<and> x_project new_reject = p_id project \<and> x_user new_reject = u_id member)))"
proof (intro conjI impI)
  show "projectrequest_tbl (fst (ProjectMemberCreateSerializer_create db d)) = projectrequest_tbl db"
    by (auto simp: ProjectMemberCreateSerializer_create_def ProjectMembers_objects_create_def
        Let_def split: sum.splits prod.splits)
  show "projectrequest_tbl (fst (ProjectRejectedCreateSerializer_create db d)) = projectrequest_tbl db"
    by (auto simp: ProjectRejectedCreateSerializer_create_def
        ProjectRequestRejected_objects_create_def Let_def split: sum.splits prod.splits)
  show "snd (ProjectMemberCreateSerializer_create (db\<lparr>projectrequest_tbl := rs\<rparr>) d)
        = snd (ProjectMemberCreateSerializer_create db d)"
    by (rule accept_outcome_requests_irrelevant)
  show "snd (ProjectRejectedCreateSerializer_create (db\<lparr>projectrequest_tbl := rs\<rparr>) d)
        = snd (ProjectRejectedCreateSerializer_create db d)"
    by (rule reject_outcome_requests_irrelevant)
next
  assume a: "User_objects_get db (dd_owner d) = Inr owner
        \<and> User_objects_get db (dd_email d) = Inr member
        \<and> ProjectLead_objects_get db owner (dd_projectname d) = Inr project
        \<and> dd_message d = Some message"
  then have l: "decision_lookups db d = Inr (project, member, message)"
    by (simp add: decision_lookups_Inr)
  {
    assume "\<not> list_ex (\<lambda>m. m_project m = p_id project \<and> m_member m = u_id member)
               (projectmembers_tbl db)"
    with l show "\<exists>new_joinee. ProjectMemberCreateSerializer_create db d
                = (db\<lparr>projectmembers_tbl := projectmembers_tbl db @ [new_joinee]\<rparr>, Inr new_joinee)
              \<and> m_project new_joinee = p_id project \<and> m_member new_joinee = u_id member"
      by (simp add: ProjectMemberCreateSerializer_create_def ProjectMembers_objects_create_def
          Let_def)
  }
  {
    assume "\<not> list_ex (\<lambda>x. x_project x = p_id project \<and> x_user x = u_id member)
               (projectrequestrejected_tbl db)"
    with l show "\<exists>new_reject. ProjectRejectedCreateSerializer_create db d
                = (db\<lparr>projectrequestrejected_tbl := projectrequestrejected_tbl db @ [new_reject]\<rparr>,
                   Inr new_reject)
              \<and> x_project new_reject = p_id project \<and> x_user new_reject = u_id member"
      by (simp add: ProjectRejectedCreateSerializer_create_def
          ProjectRequestRejected_objects_create_def Let_def)
  }
qed

text \<open>
  In the scenario store \<open>bob\<close> is accepted for Q, for which he has no pending row, and
  rejected for P, for which he has one; the pending row for P is still there afterwards.
\<close>

theorem accept_reject_ignore_pending_witness:
  "User_objects_get db_example (dd_owner decision_Q) = Inr alice
   \<and> User_objects_get db_example (dd_email decision_Q) = Inr bob
   \<and> ProjectLead_objects_get db_example alice (dd_projectname decision_Q) = Inr project_Q
   \<and> dd_message decision_Q = Some ''welcome''
   \<and> \<not> list_ex (\<lambda>m. m_project m = p_id project_Q \<and> m_member m = u_id bob)
          (projectmembers_tbl db_example)
   \<and> \<not> list_ex (\<lambda>r. r_project r = p_id project_Q \<and> r_member r = u_id bob)
          (projectrequest_tbl db_example)
   \<and> ProjectMemberCreateSerializer_create db_example decision_Q
        = (db_example\<lparr>projectmembers_tbl := [member_1, member_2]\<rparr>, Inr member_2)
   \<and> ProjectLead_objects_get db_example alice (dd_projectname decision_P) = Inr project_P
   \<and> \<not> list_ex (\<lambda>x. x_project x = p_id project_P \<and> x_user x = u_id bob)
          (projectrequestrejected_tbl db_example)
   \<and> ProjectRejectedCreateSerializer_create db_example decision_P
        = (db_example\<lparr>projectrequestrejected_tbl := [rejected_1, rejected_2]\<rparr>, Inr rejected_2)
   \<and> projectrequest_tbl (fst (ProjectRejectedCreateSerializer_create db_example decision_P))
        = [request_1]"
proof -
  have hq: "User_objects_get db_example (dd_owner decision_Q) = Inr alice"
    "User_objects_get db_example (dd_email decision_Q) = Inr bob"
    "ProjectLead_objects_get db_example alice (dd_projectname decision_Q) = Inr project_Q"
    "dd_message decision_Q = Some ''welcome''"
    "\<not> list_ex (\<lambda>m. m_project m = p_id project_Q \<and> m_member m = u_id bob)
          (projectmembers_tbl db_example)"
    "\<not> list_ex (\<lambda>r. r_project r = p_id project_Q \<and> r_member r = u_id bob)
          (projectrequest_tbl db_example)"
    by (simp_all add: User_objects_get_def ProjectLead_objects_get_def scenario_defs)
  have hp: "User_objects_get db_example (dd_owner decision_P) = Inr alice"
    "User_objects_get db_example (dd_email decision_P) = Inr bob"
    "ProjectLead_objects_get db_example alice (dd_projectname decision_P) = Inr project_P"
    "dd_message decision_P = Some ''sorry''"
    "\<not> list_ex (\<lambda>x. x_project x = p_id project_P \<and> x_user x = u_id bob)
          (projectrequestrejected_tbl db_example)"
    by (simp_all add: User_objects_get_def ProjectLead_objects_get_def scenario_defs)
  have acc: "ProjectMemberCreateSerializer_create db_example decision_Q
        = (db_example\<lparr>projectmembers_tbl := [member_1, member_2]\<rparr>, Inr member_2)"
    by (simp add: ProjectMemberCreateSerializer_create_def ProjectMembers_objects_create_def
        decision_lookups_def User_objects_get_def ProjectLead_objects_get_def fresh_id_def
        Let_def scenario_defs)
  have rej: "ProjectRejectedCreateSerializer_create db_example decision_P
        = (db_example\<lparr>projectrequestrejected_tbl := [rejected_1, rejected_2]\<rparr>, Inr rejected_2)"
    by (simp add: ProjectRejectedCreateSerializer_create_def
        ProjectRequestRejected_objects_create_def
        decision_lookups_def User_objects_get_def ProjectLead_objects_get_def fresh_id_def
        Let_def scenario_defs)
  have tbl: "projectrequest_tbl db_example = [request_1]"
    by (simp add: db_example_def)
  show ?thesis
    using accept_reject_ignore_pending[where db = db_example and d = decision_P
        and owner = alice and member = bob and project = project_P and message = "''sorry''"]
      accept_reject_ignore_pending[where db = db_example and d = decision_Q
        and owner = alice and member = bob and project = project_Q and message = "''welcome''"]
      hq hp acc rej tbl
    by simp
qed

section \<open>Normalizing an email address\<close>


lemma of_char_at: "(of_char (CHR ''@'') :: nat) = 64"
  by simp


















section \<open>Registration\<close>









end
